theory Spec2Isabelle
  imports Main
begin

section \<open>The httplib integration of ddtrace (ddtrace/contrib/httplib/patch.py)\<close>

text \<open>
  The integration replaces five methods of \<^verbatim>\<open>httplib.HTTPConnection\<close> by
  \<^verbatim>\<open>wrapt.FunctionWrapper\<close> objects. Each wrapper receives the wrapped function
  \<^verbatim>\<open>func\<close>, the connection \<^verbatim>\<open>instance\<close> and the call's \<^verbatim>\<open>args\<close> and
  \<^verbatim>\<open>kwargs\<close>. The embedding is by explicit state passing: a \<open>world\<close> holds the spans the
  tracer has produced (a store, addressed by position, because a span is shared between
  the tracer and the attribute \<^verbatim>\<open>_datadog_span\<close> of the connection), the attributes of
  the connection, and the debug log. A Python exception is the \<open>Inl\<close> of a sum.
  Every handler of the source is \<^verbatim>\<open>except Exception\<close>: it lets through an
  exception that does not derive from \<^verbatim>\<open>Exception\<close>.
\<close>

subsection \<open>Python values\<close>

text \<open>\<open>Exc\<close> is any other exception that derives from \<^verbatim>\<open>Exception\<close>; \<open>BaseExc\<close> is
  one that derives from \<^verbatim>\<open>BaseException\<close> only (\<^verbatim>\<open>KeyboardInterrupt\<close>,
  \<^verbatim>\<open>SystemExit\<close>, \<^verbatim>\<open>GeneratorExit\<close>).\<close>

datatype exn = IndexError | ValueError | TypeError | Exc string | BaseExc string

text \<open>\<^verbatim>\<open>isinstance(e, Exception)\<close>: what \<^verbatim>\<open>except Exception\<close> catches; and what
  such a handler lets through of the exception a \<^verbatim>\<open>try\<close> block ended with.\<close>

fun is_Exception :: "exn \<Rightarrow> bool" where
  "is_Exception (BaseExc n) = False"
| "is_Exception e = True"

definition escapes :: "exn option \<Rightarrow> exn option" where
  "escapes r = (case r of None \<Rightarrow> None | Some e \<Rightarrow> if is_Exception e then None else Some e)"

type_synonym pydict = "(string \<times> string) list"

text \<open>\<open>FrozenDict\<close> stands for a read-only mapping (it can be read as request headers,
  item assignment raises \<^verbatim>\<open>TypeError\<close>).\<close>

datatype pyval = NoneV | Str string | Int int | Dict pydict | FrozenDict pydict

fun dict_setitem :: "'k \<Rightarrow> 'v \<Rightarrow> ('k \<times> 'v) list \<Rightarrow> ('k \<times> 'v) list" where
  "dict_setitem k v [] = [(k, v)]"
| "dict_setitem k v ((k', v') # d) =
     (if k' = k then (k, v) # d else (k', v') # dict_setitem k v d)"

fun dict_update :: "('k \<times> 'v) list \<Rightarrow> ('k \<times> 'v) list \<Rightarrow> ('k \<times> 'v) list" where
  "dict_update d [] = d"
| "dict_update d ((k, v) # kvs) = dict_update (dict_setitem k v d) kvs"

record call_args =
  args :: "pyval list"
  kwargs :: "(string \<times> pyval) list"

record response =
  status :: int
  getheaders :: pydict

datatype retval = RNone | RResponse response

subsection \<open>The tracer's interface: spans, pins, configuration\<close>

datatype tag_key =
  URL | METHOD | STATUS_CODE | QUERY_STRING | ANALYTICS_SAMPLE_RATE_KEY
  | REQUEST_HEADER string | RESPONSE_HEADER string

datatype tag_value = TagStr string | TagInt int | TagVal pyval | TagNone

datatype span_types = HTTP

record span =
  name :: string
  span_type :: span_types
  error :: int
  exc_info :: "exn option"
  meta :: "(tag_key \<times> tag_value) list"
  finish_calls :: nat

text \<open>Modelled from the spec: the span object (ddtrace.span.Span is not among the
  sources) provides \<^verbatim>\<open>set_tag\<close>, \<^verbatim>\<open>set_exc_info\<close>, \<^verbatim>\<open>finish\<close> and an
  \<^verbatim>\<open>error\<close> flag. \<open>set_exc_info\<close> records the exception and raises the error flag;
  \<open>finish\<close> is modelled by counting its calls, so that a span is finished when the count
  is positive.\<close>

definition set_tag :: "tag_key \<Rightarrow> tag_value \<Rightarrow> span \<Rightarrow> span" where
  "set_tag k v s = s\<lparr>meta := dict_setitem k v (meta s)\<rparr>"

definition set_exc_info :: "exn \<Rightarrow> span \<Rightarrow> span" where
  "set_exc_info e s = s\<lparr>error := 1, exc_info := Some e\<rparr>"

definition finish :: "span \<Rightarrow> span" where
  "finish s = s\<lparr>finish_calls := Suc (finish_calls s)\<rparr>"

record tracer =
  enabled :: bool
  api_hostname :: string
  api_port :: int

record pin =
  pin_tracer :: tracer
  pin_config :: "(string \<times> bool) list"

text \<open>Modelled from the spec: the Pin (ddtrace.pin.Pin is not among the sources) is
  the per-object handle holding the tracer; it is enabled when its tracer is.\<close>

definition pin_enabled :: "pin \<Rightarrow> bool" where
  "pin_enabled p = enabled (pin_tracer p)"

record parse_result =
  url_scheme :: string
  url_netloc :: string
  url_path :: string
  url_params :: string
  url_query :: string
  url_fragment :: string

text \<open>
  What the wrappers use and do not define is a parameter, collected in \<open>env\<close>: whether
  the tracer, the propagator or a header-tagging helper raises (\<open>None\<close>: it does not),
  the formatting and URL functions of the standard library, the integration's global
  configuration \<^verbatim>\<open>config.httplib\<close>, and the global tracer.
\<close>

record env =
  PY2 :: bool
  trace_raises :: "exn option"
  inject_raises :: "exn option"
  propagation_headers :: "nat \<Rightarrow> pydict"
  store_request_headers_raises :: "exn option"
  store_response_headers_raises :: "exn option"
  header_is_traced :: "string \<Rightarrow> bool"
  format_int :: "int \<Rightarrow> string"
  format_obj :: "pyval \<Rightarrow> string"
  urlparse :: "string \<Rightarrow> exn + parse_result"
  urlunparse :: "string \<times> string \<times> string \<times> string \<times> string option \<times> string \<Rightarrow> string"
  trace_query_string :: bool
  analytics_sample_rate :: tag_value
  config_httplib :: "(string \<times> bool) list"
  global_tracer :: tracer

subsection \<open>The connection and the world\<close>

record connection =
  host :: string
  port :: int
  is_https :: bool
  datadog_pin :: "pin option"
  datadog_span :: "nat option"

record world =
  spans :: "span list"
  inst :: connection
  debug_log :: "string list"
  sent :: "(string \<times> call_args) list"

type_synonym call = "call_args \<Rightarrow> world \<Rightarrow> (exn + retval) \<times> world"

definition span_name :: "env \<Rightarrow> string" where
  "span_name env = (if PY2 env then ''httplib.request'' else ''http.client.request'')"

definition on_span :: "nat \<Rightarrow> (span \<Rightarrow> span) \<Rightarrow> world \<Rightarrow> world" where
  "on_span s f w = w\<lparr>spans := (spans w)[s := f (spans w ! s)]\<rparr>"

definition setattr_datadog_span :: "nat \<Rightarrow> world \<Rightarrow> world" where
  "setattr_datadog_span s w = w\<lparr>inst := (inst w)\<lparr>datadog_span := Some s\<rparr>\<rparr>"

definition delattr_datadog_span :: "world \<Rightarrow> world" where
  "delattr_datadog_span w = w\<lparr>inst := (inst w)\<lparr>datadog_span := None\<rparr>\<rparr>"

definition log_debug :: "string \<Rightarrow> world \<Rightarrow> world" where
  "log_debug msg w = w\<lparr>debug_log := debug_log w @ [msg]\<rparr>"

text \<open>\<^verbatim>\<open>pin.tracer.trace(span_name, span_type=SpanTypes.HTTP)\<close>: a new span, opened,
  or the tracer's exception.\<close>

definition tracer_trace :: "env \<Rightarrow> string \<Rightarrow> span_types \<Rightarrow> world \<Rightarrow> exn + (nat \<times> world)" where
  "tracer_trace env n t w =
     (case trace_raises env of
        Some e \<Rightarrow> Inl e
      | None \<Rightarrow>
          Inr (length (spans w),
               w\<lparr>spans := spans w @
                   [\<lparr>name = n, span_type = t, error = 0, exc_info = None, meta = [],
                     finish_calls = 0\<rparr>]\<rparr>))"

text \<open>Modelled from the spec: the header-propagation injector
  (ddtrace.propagation.http.HTTPPropagator is not among the sources) writes the
  propagation headers of the span's context into the headers it is given, by item
  assignment: on anything but a dictionary that raises \<^verbatim>\<open>TypeError\<close>.\<close>

definition propagator_inject :: "env \<Rightarrow> nat \<Rightarrow> pyval \<Rightarrow> exn + pyval" where
  "propagator_inject env s headers =
     (case inject_raises env of
        Some e \<Rightarrow> Inl e
      | None \<Rightarrow>
          (case headers of
             Dict d \<Rightarrow> Inr (Dict (dict_update d (propagation_headers env s)))
           | _ \<Rightarrow> Inl TypeError))"

text \<open>Modelled from the spec: the header-tagging helpers (ddtrace.http is not among
  the sources) tag the span with the headers the configuration asks for.\<close>

definition store_request_headers :: "env \<Rightarrow> pyval \<times> pyval \<Rightarrow> nat \<Rightarrow> world \<Rightarrow> exn + world" where
  "store_request_headers env kv s w =
     (case store_request_headers_raises env of
        Some e \<Rightarrow> Inl e
      | None \<Rightarrow>
          Inr (case fst kv of
                 Str h \<Rightarrow>
                   if header_is_traced env h
                   then on_span s (set_tag (REQUEST_HEADER h) (TagVal (snd kv))) w else w
               | _ \<Rightarrow> w))"

fun tag_headers :: "env \<Rightarrow> pydict \<Rightarrow> span \<Rightarrow> span" where
  "tag_headers env [] sp = sp"
| "tag_headers env ((h, v) # hs) sp =
     tag_headers env hs
       (if header_is_traced env h then set_tag (RESPONSE_HEADER h) (TagStr v) sp else sp)"

definition store_response_headers :: "env \<Rightarrow> pydict \<Rightarrow> nat \<Rightarrow> world \<Rightarrow> exn + world" where
  "store_response_headers env hs s w =
     (case store_response_headers_raises env of
        Some e \<Rightarrow> Inl e
      | None \<Rightarrow> Inr (on_span s (tag_headers env hs) w))"

text \<open>Modelled from the spec: \<^verbatim>\<open>config.get_from(instance)\<close> (ddtrace.settings is
  not among the sources) is the configuration of the connection's pin, empty without a
  pin; \<^verbatim>\<open>cfg.get(key)\<close> is false for a key that is not set.\<close>

definition config_get_from :: "connection \<Rightarrow> (string \<times> bool) list" where
  "config_get_from i = (case datadog_pin i of None \<Rightarrow> [] | Some p \<Rightarrow> pin_config p)"

definition cfg_get :: "(string \<times> bool) list \<Rightarrow> string \<Rightarrow> bool" where
  "cfg_get cfg k = (case map_of cfg k of None \<Rightarrow> False | Some b \<Rightarrow> b)"

subsection \<open>The integration's configuration\<close>

datatype envval = EBool bool | EStr string

definition lower :: "string \<Rightarrow> string" where
  "lower s = map (\<lambda>c. case map_of (zip ''ABCDEFGHIJKLMNOPQRSTUVWXYZ'' ''abcdefghijklmnopqrstuvwxyz'') c of
                        None \<Rightarrow> c | Some l \<Rightarrow> l) s"

text \<open>Modelled from the spec: \<^verbatim>\<open>get_env\<close> and \<^verbatim>\<open>asbool\<close> (ddtrace.utils.formats
  is not among the sources) read a per-integration toggle: \<open>get_env\<close> gives the value
  the process environment holds for the integration's variable and the default when it
  holds none; \<open>asbool\<close> keeps a boolean and reads a string as true when it is
  \<^verbatim>\<open>true\<close> or \<^verbatim>\<open>1\<close>.\<close>

definition get_env :: "(string \<times> string \<Rightarrow> string option) \<Rightarrow> string \<Rightarrow> string \<Rightarrow> envval \<Rightarrow> envval" where
  "get_env environ integration variable dflt =
     (case environ (integration, variable) of None \<Rightarrow> dflt | Some v \<Rightarrow> EStr v)"

fun asbool :: "envval \<Rightarrow> bool" where
  "asbool (EBool b) = b"
| "asbool (EStr s) = (lower s = ''true'' \<or> lower s = ''1'')"

text \<open>\<^verbatim>\<open>config._add('httplib', {'distributed_tracing': asbool(get_env('httplib',
  'distributed_tracing', default=False))})\<close>: the configuration the module registers
  when it is imported.\<close>

definition httplib_config :: "(string \<times> string \<Rightarrow> string option) \<Rightarrow> (string \<times> bool) list" where
  "httplib_config environ =
     [(''distributed_tracing'',
       asbool (get_env environ ''httplib'' ''distributed_tracing'' (EBool False)))]"

subsection \<open>The wrappers\<close>

definition should_skip_request :: "pin option \<Rightarrow> connection \<Rightarrow> bool" where
  "should_skip_request p request =
     (case p of
        None \<Rightarrow> True
      | Some pn \<Rightarrow>
          if \<not> pin_enabled pn then True
          else host request = api_hostname (pin_tracer pn)
             \<and> port request = api_port (pin_tracer pn))"

definition wrap_init :: "env \<Rightarrow> call \<Rightarrow> call" where
  "wrap_init env func a w =
     func a (w\<lparr>inst := (inst w)\<lparr>datadog_pin :=
        Some \<lparr>pin_tracer = global_tracer env, pin_config = config_httplib env\<rparr>\<rparr>\<rparr>)"

text \<open>The span attached to the connection, finished if there is one:
  \<^verbatim>\<open>span = getattr(instance, "_datadog_span", None); if span: span.finish()\<close>.\<close>

definition finish_attached :: "world \<Rightarrow> world" where
  "finish_attached w =
     (case datadog_span (inst w) of None \<Rightarrow> w | Some s \<Rightarrow> on_span s finish w)"

text \<open>The handler of both \<^verbatim>\<open>_wrap_request\<close> and \<^verbatim>\<open>_wrap_putrequest\<close> for an
  exception of the wrapped call (\<^verbatim>\<open>except Exception\<close>): the exception is recorded on
  the attached span, the span is finished, and the exception is raised again. An
  exception that does not derive from \<^verbatim>\<open>Exception\<close> passes by the handler.\<close>

definition record_exception :: "exn \<Rightarrow> world \<Rightarrow> world" where
  "record_exception e w =
     (case datadog_span (inst w) of
        None \<Rightarrow> w
      | Some s \<Rightarrow> on_span s finish (on_span s (set_exc_info e) w))"

definition call_and_record :: "call \<Rightarrow> call" where
  "call_and_record func a w =
     (case func a w of
        (Inr r, w') \<Rightarrow> (Inr r, w')
      | (Inl e, w') \<Rightarrow> (Inl e, if is_Exception e then record_exception e w' else w'))"

text \<open>The first \<^verbatim>\<open>try\<close> block of \<^verbatim>\<open>_wrap_request\<close>: the exception it ends with, if
  any, and the arguments and the world as they are at that point.\<close>

definition request_try ::
  "env \<Rightarrow> (string \<times> bool) list \<Rightarrow> call_args \<Rightarrow> world \<Rightarrow> exn option \<times> call_args \<times> world" where
  "request_try env cfg a w =
     (case tracer_trace env (span_name env) HTTP w of
        Inl e \<Rightarrow> (Some e, a, w)
      | Inr (s, w1) \<Rightarrow>
          let w2 = setattr_datadog_span s w1 in
          if cfg_get cfg ''distributed_tracing'' then
            if length (args a) > 3 then
              (case propagator_inject env s (args a ! 3) of
                 Inl e \<Rightarrow> (Some e, a, w2)
               | Inr h \<Rightarrow> (None, a\<lparr>args := (args a)[3 := h]\<rparr>, w2))
            else
              let a1 = (case map_of (kwargs a) ''headers'' of
                          None \<Rightarrow> a\<lparr>kwargs := kwargs a @ [(''headers'', Dict [])]\<rparr>
                        | Some _ \<Rightarrow> a);
                  headers = (case map_of (kwargs a) ''headers'' of
                               None \<Rightarrow> Dict []
                             | Some h \<Rightarrow> h)
              in (case propagator_inject env s headers of
                    Inl e \<Rightarrow> (Some e, a1, w2)
                  | Inr h \<Rightarrow>
                      (None, a1\<lparr>kwargs := dict_setitem ''headers'' h (kwargs a1)\<rparr>, w2))
          else (None, a, w2))"

text \<open>The arguments and the world the wrapped \<^verbatim>\<open>request\<close> is called with: after
  the \<^verbatim>\<open>try\<close> block and, when it failed, its handler. An exception of the block
  that the handler does not catch leaves the wrapper, with the world as it is then.\<close>

definition request_before :: "env \<Rightarrow> call_args \<Rightarrow> world \<Rightarrow> call_args \<times> world" where
  "request_before env a w =
     (case request_try env (config_get_from (inst w)) a w of
        (None, a', w') \<Rightarrow> (a', w')
      | (Some e, a', w') \<Rightarrow>
          if is_Exception e
          then (a', finish_attached (log_debug ''error configuring request'' w'))
          else (a', w'))"

definition request_escapes :: "env \<Rightarrow> call_args \<Rightarrow> world \<Rightarrow> exn option" where
  "request_escapes env a w = escapes (fst (request_try env (config_get_from (inst w)) a w))"

definition wrap_request :: "env \<Rightarrow> call \<Rightarrow> call" where
  "wrap_request env func a w =
     (if should_skip_request (datadog_pin (inst w)) (inst w) then func a w
      else
        (case request_escapes env a w of
           Some e \<Rightarrow> (Inl e, snd (request_before env a w))
         | None \<Rightarrow>
             call_and_record func (fst (request_before env a w)) (snd (request_before env a w))))"

text \<open>The first \<^verbatim>\<open>try\<close> block of \<^verbatim>\<open>_wrap_putrequest\<close>.\<close>

definition putrequest_span :: "env \<Rightarrow> world \<Rightarrow> exn + (nat \<times> world)" where
  "putrequest_span env w =
     (case datadog_span (inst w) of
        Some s \<Rightarrow> Inr (s, w)
      | None \<Rightarrow>
          (case tracer_trace env (span_name env) HTTP w of
             Inl e \<Rightarrow> Inl e
           | Inr (s, w1) \<Rightarrow> Inr (s, setattr_datadog_span s w1)))"

text \<open>The URL the span is tagged with, before it is parsed:
  \<^verbatim>\<open>'{scheme}://{host}{port}{path}'.format(...)\<close>, the port left out when it is the
  scheme's default.\<close>

definition putrequest_url :: "env \<Rightarrow> connection \<Rightarrow> pyval \<Rightarrow> string" where
  "putrequest_url env i path =
     (let scheme = (if is_https i then ''https'' else ''http'');
          port0 = '':'' @ format_int env (port i);
          port1 = (if (scheme = ''http'' \<and> port i = 80) \<or> (scheme = ''https'' \<and> port i = 443)
                   then [] else port0)
      in scheme @ ''://'' @ host i @ port1
           @ (case path of Str p \<Rightarrow> p | _ \<Rightarrow> format_obj env path))"

definition putrequest_tags :: "env \<Rightarrow> call_args \<Rightarrow> nat \<Rightarrow> world \<Rightarrow> exn option \<times> world" where
  "putrequest_tags env a s w =
     (if length (args a) < 2 then (Some ValueError, w)
      else
        let method = args a ! 0;
            path = args a ! 1;
            url = putrequest_url env (inst w) path
        in (case urlparse env url of
              Inl e \<Rightarrow> (Some e, w)
            | Inr parsed \<Rightarrow>
                let sanitized_url = urlunparse env
                      (url_scheme parsed, url_netloc parsed, url_path parsed,
                       url_params parsed, None, url_fragment parsed);
                    w1 = on_span s (set_tag URL (TagStr sanitized_url)) w;
                    w2 = on_span s (set_tag METHOD (TagVal method)) w1;
                    w3 = (if trace_query_string env
                          then on_span s (set_tag QUERY_STRING (TagStr (url_query parsed))) w2
                          else w2)
                in (None,
                    on_span s (set_tag ANALYTICS_SAMPLE_RATE_KEY (analytics_sample_rate env)) w3)))"

definition putrequest_try :: "env \<Rightarrow> call_args \<Rightarrow> world \<Rightarrow> exn option \<times> world" where
  "putrequest_try env a w =
     (case putrequest_span env w of
        Inl e \<Rightarrow> (Some e, w)
      | Inr (s, w1) \<Rightarrow> putrequest_tags env a s w1)"

definition putrequest_before :: "env \<Rightarrow> call_args \<Rightarrow> world \<Rightarrow> world" where
  "putrequest_before env a w =
     (case putrequest_try env a w of
        (None, w') \<Rightarrow> w'
      | (Some e, w') \<Rightarrow>
          if is_Exception e
          then finish_attached (log_debug ''error applying request tags'' w')
          else w')"

definition putrequest_escapes :: "env \<Rightarrow> call_args \<Rightarrow> world \<Rightarrow> exn option" where
  "putrequest_escapes env a w = escapes (fst (putrequest_try env a w))"

definition wrap_putrequest :: "env \<Rightarrow> call \<Rightarrow> call" where
  "wrap_putrequest env func a w =
     (if should_skip_request (datadog_pin (inst w)) (inst w) then func a w
      else
        (case putrequest_escapes env a w of
           Some e \<Rightarrow> (Inl e, putrequest_before env a w)
         | None \<Rightarrow> call_and_record func a (putrequest_before env a w)))"

text \<open>The inner \<^verbatim>\<open>try\<close> block of the \<^verbatim>\<open>finally\<close> clause of
  \<^verbatim>\<open>_wrap_getresponse\<close>; \<open>resp\<close> is \<open>RNone\<close> when the wrapped call raised.\<close>

definition getresponse_try :: "env \<Rightarrow> retval \<Rightarrow> world \<Rightarrow> exn option \<times> world" where
  "getresponse_try env resp w =
     (case datadog_span (inst w) of
        None \<Rightarrow> (None, w)
      | Some s \<Rightarrow>
          (case resp of
             RNone \<Rightarrow> (None, delattr_datadog_span (on_span s finish w))
           | RResponse r \<Rightarrow>
               let w1 = on_span s (set_tag STATUS_CODE (TagInt (status r))) w;
                   w2 = on_span s (\<lambda>sp. sp\<lparr>error := (if 500 \<le> status r then 1 else 0)\<rparr>) w1
               in (case store_response_headers env (getheaders r) s w2 of
                     Inl e \<Rightarrow> (Some e, w2)
                   | Inr w3 \<Rightarrow> (None, delattr_datadog_span (on_span s finish w3)))))"

definition getresponse_finally :: "env \<Rightarrow> retval \<Rightarrow> world \<Rightarrow> world" where
  "getresponse_finally env resp w =
     (case getresponse_try env resp w of
        (None, w') \<Rightarrow> w'
      | (Some e, w') \<Rightarrow>
          if is_Exception e then log_debug ''error applying request tags'' w' else w')"

text \<open>An exception that leaves the \<^verbatim>\<open>finally\<close> clause takes the place of the
  wrapped call's result.\<close>

definition getresponse_escapes :: "env \<Rightarrow> retval \<Rightarrow> world \<Rightarrow> exn option" where
  "getresponse_escapes env resp w = escapes (fst (getresponse_try env resp w))"

definition after_finally :: "exn option \<Rightarrow> exn + retval \<Rightarrow> exn + retval" where
  "after_finally escaped r = (case escaped of None \<Rightarrow> r | Some e \<Rightarrow> Inl e)"

definition wrap_getresponse :: "env \<Rightarrow> call \<Rightarrow> call" where
  "wrap_getresponse env func a w =
     (case datadog_pin (inst w) of
        None \<Rightarrow> func a w
      | Some p \<Rightarrow>
          if \<not> pin_enabled p then func a w
          else
            (case func a w of
               (Inr resp, w') \<Rightarrow>
                 (after_finally (getresponse_escapes env resp w') (Inr resp),
                  getresponse_finally env resp w')
             | (Inl e, w') \<Rightarrow>
                 (after_finally (getresponse_escapes env RNone w') (Inl e),
                  getresponse_finally env RNone w')))"

text \<open>\<^verbatim>\<open>{args[0]: args[1]}\<close> raises \<^verbatim>\<open>IndexError\<close> on fewer than two positional
  arguments and \<^verbatim>\<open>TypeError\<close> on a key that cannot be hashed.\<close>

definition putheader_item :: "call_args \<Rightarrow> exn + (pyval \<times> pyval)" where
  "putheader_item a =
     (if length (args a) < 2 then Inl IndexError
      else (case args a ! 0 of
              Dict d \<Rightarrow> Inl TypeError
            | FrozenDict d \<Rightarrow> Inl TypeError
            | k \<Rightarrow> Inr (k, args a ! 1)))"

definition wrap_putheader :: "env \<Rightarrow> call \<Rightarrow> call" where
  "wrap_putheader env func a w =
     (case datadog_span (inst w) of
        None \<Rightarrow> func a w
      | Some s \<Rightarrow>
          (case putheader_item a of
             Inl e \<Rightarrow> (Inl e, w)
           | Inr kv \<Rightarrow>
               (case store_request_headers env kv s w of
                  Inl e \<Rightarrow> (Inl e, w)
                | Inr w1 \<Rightarrow> func a w1)))"


subsection \<open>The entry points\<close>

datatype wrapper = Wrap_init | Wrap_getresponse | Wrap_request | Wrap_putrequest | Wrap_putheader

text \<open>What an attribute of the class \<^verbatim>\<open>HTTPConnection\<close> holds: the library's own
  function, or a \<^verbatim>\<open>wrapt.FunctionWrapper(wrapped, wrapper)\<close>.\<close>

datatype func_obj = Original | FunctionWrapper func_obj wrapper

record httplib =
  datadog_patch :: "bool option"
  HTTPConnection_init :: func_obj
  HTTPConnection_getresponse :: func_obj
  HTTPConnection_request :: func_obj
  HTTPConnection_putrequest :: func_obj
  HTTPConnection_putheader :: func_obj

text \<open>\<^verbatim>\<open>getattr(httplib, '__datadog_patch', False)\<close>\<close>

definition getattr_datadog_patch :: "httplib \<Rightarrow> bool" where
  "getattr_datadog_patch h = (case datadog_patch h of None \<Rightarrow> False | Some b \<Rightarrow> b)"

definition patch :: "httplib \<Rightarrow> httplib" where
  "patch h =
     (if getattr_datadog_patch h then h
      else h\<lparr>datadog_patch := Some True,
             HTTPConnection_init := FunctionWrapper (HTTPConnection_init h) Wrap_init,
             HTTPConnection_getresponse :=
               FunctionWrapper (HTTPConnection_getresponse h) Wrap_getresponse,
             HTTPConnection_request := FunctionWrapper (HTTPConnection_request h) Wrap_request,
             HTTPConnection_putrequest :=
               FunctionWrapper (HTTPConnection_putrequest h) Wrap_putrequest,
             HTTPConnection_putheader :=
               FunctionWrapper (HTTPConnection_putheader h) Wrap_putheader\<rparr>)"

text \<open>Modelled from the spec: \<^verbatim>\<open>unwrap\<close> (ddtrace.utils.wrappers, imported as
  \<^verbatim>\<open>_u\<close>, is not among the sources) removes the interception of a method: an attribute
  that holds a wrapper is set to the function it wraps, any other is left as it is.\<close>

definition unwrap :: "func_obj \<Rightarrow> func_obj" where
  "unwrap f = (case f of FunctionWrapper wrapped wr \<Rightarrow> wrapped | Original \<Rightarrow> Original)"

definition unpatch :: "httplib \<Rightarrow> httplib" where
  "unpatch h =
     (if \<not> getattr_datadog_patch h then h
      else h\<lparr>datadog_patch := Some False,
             HTTPConnection_init := unwrap (HTTPConnection_init h),
             HTTPConnection_getresponse := unwrap (HTTPConnection_getresponse h),
             HTTPConnection_request := unwrap (HTTPConnection_request h),
             HTTPConnection_putrequest := unwrap (HTTPConnection_putrequest h),
             HTTPConnection_putheader := unwrap (HTTPConnection_putheader h)\<rparr>)"

text \<open>The module as the interpreter loads it, and the process's calls of the two
  entry points.\<close>

definition httplib0 :: httplib where
  "httplib0 = \<lparr>datadog_patch = None, HTTPConnection_init = Original,
     HTTPConnection_getresponse = Original, HTTPConnection_request = Original,
     HTTPConnection_putrequest = Original, HTTPConnection_putheader = Original\<rparr>"

datatype entry = Patch | Unpatch

fun entry_point :: "entry \<Rightarrow> httplib \<Rightarrow> httplib" where
  "entry_point Patch h = patch h"
| "entry_point Unpatch h = unpatch h"

fun entry_points :: "entry list \<Rightarrow> httplib \<Rightarrow> httplib" where
  "entry_points [] h = h"
| "entry_points (e # es) h = entry_points es (entry_point e h)"

text \<open>Calling what an attribute of the class holds; \<open>orig\<close> is the library's function.\<close>

fun wrapper_fn :: "wrapper \<Rightarrow> env \<Rightarrow> call \<Rightarrow> call" where
  "wrapper_fn Wrap_init = wrap_init"
| "wrapper_fn Wrap_getresponse = wrap_getresponse"
| "wrapper_fn Wrap_request = wrap_request"
| "wrapper_fn Wrap_putrequest = wrap_putrequest"
| "wrapper_fn Wrap_putheader = wrap_putheader"

fun bound :: "env \<Rightarrow> func_obj \<Rightarrow> call \<Rightarrow> call" where
  "bound env Original orig = orig"
| "bound env (FunctionWrapper wrapped wr) orig = wrapper_fn wr env (bound env wrapped orig)"

subsection \<open>A concrete setting\<close>

text \<open>A library function that hands its arguments to the network (kept in \<open>sent\<close>)
  and returns or raises \<open>r\<close>; an environment in which no instrumentation call raises;
  a connection to \<open>example.org\<close> with the pin \<^verbatim>\<open>__init__\<close> attaches, and one to the
  agent.\<close>

definition original :: "string \<Rightarrow> exn + retval \<Rightarrow> call" where
  "original m r a w = (r, w\<lparr>sent := sent w @ [(m, a)]\<rparr>)"

definition tracer0 :: tracer where
  "tracer0 = \<lparr>enabled = True, api_hostname = ''localhost'', api_port = 8126\<rparr>"

definition env0 :: env where
  "env0 = \<lparr>PY2 = False, trace_raises = None, inject_raises = None,
     propagation_headers = (\<lambda>s. [(''x-datadog-trace-id'', ''1''), (''x-datadog-parent-id'', ''2'')]),
     store_request_headers_raises = None, store_response_headers_raises = None,
     header_is_traced = (\<lambda>h. False),
     format_int = (\<lambda>i. ''8080''), format_obj = (\<lambda>v. ''None''),
     urlparse = (\<lambda>u. Inr \<lparr>url_scheme = ''http'', url_netloc = ''example.org:8080'',
                             url_path = ''/'', url_params = [], url_query = [],
                             url_fragment = []\<rparr>),
     urlunparse = (\<lambda>p. ''http://example.org:8080/''),
     trace_query_string = False, analytics_sample_rate = TagNone,
     config_httplib = [(''distributed_tracing'', False)],
     global_tracer = tracer0\<rparr>"

definition pin0 :: pin where
  "pin0 = \<lparr>pin_tracer = tracer0, pin_config = [(''distributed_tracing'', False)]\<rparr>"

definition conn0 :: connection where
  "conn0 = \<lparr>host = ''example.org'', port = 8080, is_https = False,
     datadog_pin = Some pin0, datadog_span = None\<rparr>"

definition world0 :: world where
  "world0 = \<lparr>spans = [], inst = conn0, debug_log = [], sent = []\<rparr>"

definition agent_world :: world where
  "agent_world = world0\<lparr>inst := conn0\<lparr>host := ''localhost'', port := 8126\<rparr>\<rparr>"

definition get_args :: call_args where
  "get_args = \<lparr>args = [Str ''GET'', Str ''/''], kwargs = []\<rparr>"

definition no_args :: call_args where
  "no_args = \<lparr>args = [], kwargs = []\<rparr>"

text \<open>The same connection with distributed tracing switched on in its pin's
  configuration; a request whose headers are a read-only mapping, passed by position;
  a header without values; a response.\<close>

definition world_dt :: world where
  "world_dt = world0\<lparr>inst := conn0\<lparr>datadog_pin :=
      Some (pin0\<lparr>pin_config := [(''distributed_tracing'', True)]\<rparr>)\<rparr>\<rparr>"

definition frozen_args :: call_args where
  "frozen_args = \<lparr>args = [Str ''GET'', Str ''/'', NoneV, FrozenDict [(''Accept'', ''text/html'')]],
     kwargs = []\<rparr>"

definition one_arg :: call_args where
  "one_arg = \<lparr>args = [Str ''X-Empty''], kwargs = []\<rparr>"

definition ok_response :: retval where
  "ok_response = RResponse \<lparr>status = 200, getheaders = []\<rparr>"

text \<open>An environment in which the helper that tags the response headers raises.\<close>

definition env_tagging_fails :: env where
  "env_tagging_fails = env0\<lparr>store_response_headers_raises := Some (Exc ''UnicodeDecodeError'')\<rparr>"

text \<open>The library's \<^verbatim>\<open>request\<close> as far as tracing sees it: it starts with
  \<^verbatim>\<open>self.putrequest(method, url)\<close>, which is the wrapper when the class is patched
  (the source counts on it: \<^verbatim>\<open>_wrap_putrequest\<close> reuses "an existing span set in
  \<^verbatim>\<open>_wrap_request\<close>"), and raises what that raises.\<close>

definition library_request :: "call \<Rightarrow> call" where
  "library_request putrequest a w = putrequest \<lparr>args = take 2 (args a), kwargs = []\<rparr> w"

text \<open>From the module as loaded, the entry points only reach two assignments of the
  methods: all wrapped once with the flag set, or all original with the flag clear.\<close>

definition all_original :: "httplib \<Rightarrow> bool" where
  "all_original h =
     (HTTPConnection_init h = Original \<and> HTTPConnection_getresponse h = Original
      \<and> HTTPConnection_request h = Original \<and> HTTPConnection_putrequest h = Original
      \<and> HTTPConnection_putheader h = Original)"

definition consistent :: "httplib \<Rightarrow> bool" where
  "consistent h =
     (if getattr_datadog_patch h
      then h = (patch httplib0)
      else all_original h)"

text \<open>The headers of a call of \<^verbatim>\<open>request(method, url, body, headers)\<close>: the fourth
  positional argument or the keyword.\<close>

definition request_headers :: "call_args \<Rightarrow> pyval option" where
  "request_headers a =
     (if length (args a) > 3 then Some (args a ! 3) else map_of (kwargs a) ''headers'')"

definition accept_args :: call_args where
  "accept_args = \<lparr>args = [Str ''Accept'', Str ''text/html''], kwargs = []\<rparr>"

subsection \<open>Request/response cycles and sequences of calls\<close>

text \<open>A client's cycle: the call that starts the request and, when it returned,
  \<^verbatim>\<open>getresponse\<close>; an exception of the first call ends the cycle.\<close>

definition cycle :: "call \<Rightarrow> call_args \<Rightarrow> call \<Rightarrow> call_args \<Rightarrow> world \<Rightarrow> (exn + retval) \<times> world" where
  "cycle start a getresp b w =
     (case start a w of
        (Inl e, w1) \<Rightarrow> (Inl e, w1)
      | (Inr r, w1) \<Rightarrow> getresp b w1)"

text \<open>Any sequence of calls of the wrapped methods on the connection, each with the
  function it wraps and its arguments; the caller goes on after an exception.\<close>

fun run :: "env \<Rightarrow> (wrapper \<times> call \<times> call_args) list \<Rightarrow> world \<Rightarrow> world" where
  "run env [] w = w"
| "run env ((wr, func, a) # ops) w = run env ops (snd (wrapper_fn wr env func a w))"

text \<open>The spans of the tracer that are attached to the connection and not finished.\<close>

definition attached_open :: "world \<Rightarrow> nat list" where
  "attached_open w =
     filter (\<lambda>s. datadog_span (inst w) = Some s \<and> finish_calls (spans w ! s) = 0)
       [0..<length (spans w)]"

text \<open>The spans of the tracer that are not finished.\<close>

definition unfinished :: "world \<Rightarrow> nat list" where
  "unfinished w = filter (\<lambda>s. finish_calls (spans w ! s) = 0) [0..<length (spans w)]"

text \<open>A wrapped function that leaves the tracing state alone: the attributes of the
  connection, the number of spans and how often each was finished. (The library's
  \<^verbatim>\<open>request\<close> calls \<^verbatim>\<open>putrequest\<close> and \<^verbatim>\<open>putheader\<close>, which tag the span.)\<close>

definition keeps_tracing :: "call \<Rightarrow> bool" where
  "keeps_tracing func =
     (\<forall>a w. inst (snd (func a w)) = inst w
          \<and> map finish_calls (spans (snd (func a w))) = map finish_calls (spans w))"


text \<open>The attribute, when set, refers to a span of the tracer.\<close>

definition valid_world :: "world \<Rightarrow> bool" where
  "valid_world w =
     (case datadog_span (inst w) of None \<Rightarrow> True | Some s \<Rightarrow> s < length (spans w))"


section \<open>Properties\<close>

subsection \<open>The entry points\<close>

lemma patch_sets_flag: "getattr_datadog_patch (patch h)"
  by (simp add: patch_def getattr_datadog_patch_def)

lemma unpatch_clears_flag: "\<not> getattr_datadog_patch (unpatch h)"
  by (simp add: unpatch_def getattr_datadog_patch_def)

text \<open>
  C1. The entry points are idempotent: in every state of the module, a second
  \<open>patch\<close> leaves the flag and the five methods as the first did, and a second
  \<open>unpatch\<close> leaves them as the first did.
\<close>

theorem patch_unpatch_idempotent:
  "patch (patch h) = patch h \<and> unpatch (unpatch h) = unpatch h"
proof
  have "getattr_datadog_patch (patch h)" by (rule patch_sets_flag)
  then show "patch (patch h) = patch h" by (subst patch_def) simp
next
  have "\<not> getattr_datadog_patch (unpatch h)" by (rule unpatch_clears_flag)
  then show "unpatch (unpatch h) = unpatch h" by (subst unpatch_def) simp
qed

lemma consistent_httplib0: "consistent httplib0"
  by (simp add: consistent_def all_original_def httplib0_def getattr_datadog_patch_def)

lemma consistent_patch: "consistent h \<Longrightarrow> consistent (patch h)"
proof (cases "getattr_datadog_patch h")
  case True
  assume "consistent h"
  with True show ?thesis by (simp add: patch_def)
next
  case False
  assume "consistent h"
  with False have o: "all_original h" by (simp add: consistent_def)
  have "patch h = patch httplib0"
    using False o
    by (simp add: patch_def all_original_def httplib0_def getattr_datadog_patch_def)
  moreover have "getattr_datadog_patch (patch h)" by (rule patch_sets_flag)
  ultimately show ?thesis by (simp add: consistent_def)
qed

lemma consistent_unpatch: "consistent h \<Longrightarrow> consistent (unpatch h)"
proof (cases "getattr_datadog_patch h")
  case False
  assume "consistent h"
  with False show ?thesis by (simp add: unpatch_def)
next
  case True
  assume "consistent h"
  with True have p: "h = patch httplib0" by (simp add: consistent_def)
  have "all_original (unpatch (patch httplib0))"
    by (simp add: unpatch_def patch_def all_original_def httplib0_def
        getattr_datadog_patch_def unwrap_def)
  with p have "all_original (unpatch h)" by simp
  moreover have "\<not> getattr_datadog_patch (unpatch h)" by (rule unpatch_clears_flag)
  ultimately show ?thesis by (simp add: consistent_def)
qed

lemma consistent_entry_points: "consistent h \<Longrightarrow> consistent (entry_points es h)"
proof (induction es arbitrary: h)
  case Nil
  then show ?case by simp
next
  case (Cons e es)
  have "consistent (entry_point e h)"
    using Cons.prems by (cases e) (simp_all add: consistent_patch consistent_unpatch)
  then show ?case using Cons.IH by simp
qed

lemma unpatched_all_original: "all_original (unpatch (entry_points es httplib0))"
proof -
  have "consistent (unpatch (entry_points es httplib0))"
    by (rule consistent_unpatch, rule consistent_entry_points, rule consistent_httplib0)
  moreover have "\<not> getattr_datadog_patch (unpatch (entry_points es httplib0))"
    by (rule unpatch_clears_flag)
  ultimately show ?thesis by (simp add: consistent_def)
qed

text \<open>
  C8. After \<open>unpatch\<close> (whatever calls of the entry points came before it, from the
  module as loaded), a call through any of the five methods is the call of the
  library's own function on the same arguments and state: no wrapper runs, so the
  tracer is not asked for a span.
\<close>

theorem unpatched_calls_untraced:
  "bound env (HTTPConnection_init (unpatch (entry_points es httplib0))) orig = orig
   \<and> bound env (HTTPConnection_request (unpatch (entry_points es httplib0))) orig = orig
   \<and> bound env (HTTPConnection_putrequest (unpatch (entry_points es httplib0))) orig = orig
   \<and> bound env (HTTPConnection_putheader (unpatch (entry_points es httplib0))) orig = orig
   \<and> bound env (HTTPConnection_getresponse (unpatch (entry_points es httplib0))) orig = orig"
  using unpatched_all_original [of es] by (simp add: all_original_def)

subsection \<open>What the patched methods are\<close>

lemma agent_is_skipped:
  assumes "datadog_pin (inst w) = Some p"
    and "host (inst w) = api_hostname (pin_tracer p)"
    and "port (inst w) = api_port (pin_tracer p)"
  shows "should_skip_request (datadog_pin (inst w)) (inst w)"
  using assms by (simp add: should_skip_request_def)

lemma patched_request: "bound env (HTTPConnection_request (patch httplib0)) orig = wrap_request env orig"
  by (simp add: patch_def httplib0_def getattr_datadog_patch_def)

lemma patched_putrequest:
  "bound env (HTTPConnection_putrequest (patch httplib0)) orig = wrap_putrequest env orig"
  by (simp add: patch_def httplib0_def getattr_datadog_patch_def)

lemma patched_getresponse:
  "bound env (HTTPConnection_getresponse (patch httplib0)) orig = wrap_getresponse env orig"
  by (simp add: patch_def httplib0_def getattr_datadog_patch_def)

lemma patched_putheader:
  "bound env (HTTPConnection_putheader (patch httplib0)) orig = wrap_putheader env orig"
  by (simp add: patch_def httplib0_def getattr_datadog_patch_def)

lemma patched_init:
  "bound env (HTTPConnection_init (patch httplib0)) orig = wrap_init env orig"
  by (simp add: patch_def httplib0_def getattr_datadog_patch_def)

text \<open>
  C10. On a patched connection whose host and port are those of the agent API of the
  pin's tracer, \<open>request\<close> and \<open>putrequest\<close> are the library's own calls on the same
  arguments and state: the wrappers create no span and change nothing.
\<close>

theorem agent_requests_forwarded:
  assumes "datadog_pin (inst w) = Some p"
    and "host (inst w) = api_hostname (pin_tracer p)"
    and "port (inst w) = api_port (pin_tracer p)"
  shows "bound env (HTTPConnection_request (patch httplib0)) orig a w = orig a w
       \<and> bound env (HTTPConnection_putrequest (patch httplib0)) orig a w = orig a w"
  using agent_is_skipped [OF assms]
  by (simp add: patched_request patched_putrequest wrap_request_def wrap_putrequest_def)

theorem agent_requests_forwarded_witness:
  "bound env0 (HTTPConnection_request (patch httplib0)) (original ''request'' (Inr RNone))
       get_args agent_world
     = (Inr RNone, agent_world\<lparr>sent := [(''request'', get_args)]\<rparr>)
   \<and> bound env0 (HTTPConnection_putrequest (patch httplib0)) (original ''putrequest'' (Inr RNone))
       get_args agent_world
     = (Inr RNone, agent_world\<lparr>sent := [(''putrequest'', get_args)]\<rparr>)"
proof -
  have p: "datadog_pin (inst agent_world) = Some pin0"
    by (simp add: agent_world_def world0_def conn0_def)
  have h: "host (inst agent_world) = api_hostname (pin_tracer pin0)"
    by (simp add: agent_world_def world0_def conn0_def pin0_def tracer0_def)
  have q: "port (inst agent_world) = api_port (pin_tracer pin0)"
    by (simp add: agent_world_def world0_def conn0_def pin0_def tracer0_def)
  have s: "sent agent_world = []" by (simp add: agent_world_def world0_def)
  show ?thesis
    using agent_requests_forwarded [OF p h q, of env0 "original ''request'' (Inr RNone)" get_args]
      agent_requests_forwarded [OF p h q, of env0 "original ''putrequest'' (Inr RNone)" get_args]
    by (simp add: original_def s)
qed

subsection \<open>The wrappers\<close>

lemma on_span_frame [simp]:
  "inst (on_span s f w) = inst w"
  "length (spans (on_span s f w)) = length (spans w)"
  "debug_log (on_span s f w) = debug_log w"
  "sent (on_span s f w) = sent w"
  by (simp_all add: on_span_def)

lemma nth_on_span:
  "spans (on_span s f w) ! i =
     (if i = s \<and> s < length (spans w) then f (spans w ! s) else spans w ! i)"
  by (cases "s < length (spans w)") (auto simp: on_span_def nth_list_update list_update_beyond)

lemma setattr_frame [simp]:
  "inst (setattr_datadog_span s w) = (inst w)\<lparr>datadog_span := Some s\<rparr>"
  "spans (setattr_datadog_span s w) = spans w"
  by (simp_all add: setattr_datadog_span_def)

lemma delattr_frame [simp]:
  "inst (delattr_datadog_span w) = (inst w)\<lparr>datadog_span := None\<rparr>"
  "spans (delattr_datadog_span w) = spans w"
  by (simp_all add: delattr_datadog_span_def)

lemma log_debug_frame [simp]:
  "inst (log_debug m w) = inst w"
  "spans (log_debug m w) = spans w"
  by (simp_all add: log_debug_def)

lemma span_ops_finish_calls [simp]:
  "finish_calls (set_tag k v sp) = finish_calls sp"
  "finish_calls (set_exc_info e sp) = finish_calls sp"
  "finish_calls (finish sp) = Suc (finish_calls sp)"
  by (simp_all add: set_tag_def set_exc_info_def finish_def)

lemma span_ops_exc [simp]:
  "exc_info (finish sp) = exc_info sp"
  "error (finish sp) = error sp"
  "exc_info (set_exc_info e sp) = Some e"
  "error (set_exc_info e sp) = 1"
  by (simp_all add: set_exc_info_def finish_def)

lemma finish_attached_frame [simp]:
  "inst (finish_attached w) = inst w"
  "length (spans (finish_attached w)) = length (spans w)"
  by (simp_all add: finish_attached_def split: option.splits)

lemma escapes_simps [simp]:
  "escapes None = None"
  "escapes (Some e) = (if is_Exception e then None else Some e)"
  by (simp_all add: escapes_def)

lemma not_skipped_pin:
  "\<not> should_skip_request (datadog_pin i) i \<Longrightarrow> \<exists>p. datadog_pin i = Some p \<and> pin_enabled p"
  by (auto simp: should_skip_request_def split: option.splits if_splits)

text \<open>The world in which the wrapped request is called, when the tracer gave a span.\<close>

lemma request_try_traced:
  assumes "trace_raises env = None"
  shows "inst (snd (snd (request_try env cfg a w))) = (inst w)\<lparr>datadog_span := Some (length (spans w))\<rparr>
       \<and> spans (snd (snd (request_try env cfg a w)))
           = spans w @ [\<lparr>name = span_name env, span_type = HTTP, error = 0, exc_info = None,
                          meta = [], finish_calls = 0\<rparr>]"
  using assms
  by (simp add: request_try_def tracer_trace_def Let_def split: sum.splits option.splits)

lemma request_before_traced:
  assumes "trace_raises env = None"
  shows "inst (snd (request_before env a w)) = (inst w)\<lparr>datadog_span := Some (length (spans w))\<rparr>"
    and "length (spans (snd (request_before env a w))) = Suc (length (spans w))"
proof -
  obtain r a' w' where r: "request_try env (config_get_from (inst w)) a w = (r, a', w')"
    by (cases "request_try env (config_get_from (inst w)) a w") auto
  from request_try_traced [OF assms, of "config_get_from (inst w)" a w] r
  have i: "inst w' = (inst w)\<lparr>datadog_span := Some (length (spans w))\<rparr>"
    and l: "length (spans w') = Suc (length (spans w))" by simp_all
  show "inst (snd (request_before env a w)) = (inst w)\<lparr>datadog_span := Some (length (spans w))\<rparr>"
    using r i by (cases r) (simp_all add: request_before_def)
  show "length (spans (snd (request_before env a w))) = Suc (length (spans w))"
    using r l by (cases r) (simp_all add: request_before_def)
qed

lemma keeps_tracingD:
  assumes "keeps_tracing func"
  shows "inst (snd (func a w)) = inst w"
    and "length (spans (snd (func a w))) = length (spans w)"
    and "i < length (spans w) \<Longrightarrow> finish_calls (spans (snd (func a w)) ! i) = finish_calls (spans w ! i)"
proof -
  from assms have i: "inst (snd (func a w)) = inst w"
    and m: "map finish_calls (spans (snd (func a w))) = map finish_calls (spans w)"
    by (simp_all add: keeps_tracing_def)
  show "inst (snd (func a w)) = inst w" by (rule i)
  from m show l: "length (spans (snd (func a w))) = length (spans w)" by (rule map_eq_imp_length_eq)
  assume "i < length (spans w)"
  with m l show "finish_calls (spans (snd (func a w)) ! i) = finish_calls (spans w ! i)"
    by (metis nth_map)
qed



lemma putrequest_tags_frame:
  "inst (snd (putrequest_tags env a s w)) = inst w"
  "length (spans (snd (putrequest_tags env a s w))) = length (spans w)"
  by (simp_all add: putrequest_tags_def Let_def split: sum.splits)

lemma putrequest_span_attached:
  assumes "trace_raises env = None" and "valid_world w"
  shows "\<exists>w1. putrequest_span env w
           = Inr ((case datadog_span (inst w) of None \<Rightarrow> length (spans w) | Some s \<Rightarrow> s), w1)
         \<and> inst w1 = (inst w)\<lparr>datadog_span :=
               Some (case datadog_span (inst w) of None \<Rightarrow> length (spans w) | Some s \<Rightarrow> s)\<rparr>
         \<and> (case datadog_span (inst w) of None \<Rightarrow> length (spans w) | Some s \<Rightarrow> s)
               < length (spans w1)"
  using assms
  by (cases "datadog_span (inst w)")
     (simp_all add: putrequest_span_def tracer_trace_def valid_world_def)

lemma putrequest_before_attached:
  assumes "trace_raises env = None" and "valid_world w"
  shows "inst (putrequest_before env a w) = (inst w)\<lparr>datadog_span :=
               Some (case datadog_span (inst w) of None \<Rightarrow> length (spans w) | Some s \<Rightarrow> s)\<rparr>"
    and "(case datadog_span (inst w) of None \<Rightarrow> length (spans w) | Some s \<Rightarrow> s)
               < length (spans (putrequest_before env a w))"
proof -
  let ?s = "case datadog_span (inst w) of None \<Rightarrow> length (spans w) | Some s \<Rightarrow> s"
  from putrequest_span_attached [OF assms] obtain w1 where
    sp: "putrequest_span env w = Inr (?s, w1)"
    and i: "inst w1 = (inst w)\<lparr>datadog_span := Some ?s\<rparr>"
    and l: "?s < length (spans w1)" by blast
  obtain r w2 where t: "putrequest_tags env a ?s w1 = (r, w2)"
    by (cases "putrequest_tags env a ?s w1") auto
  from putrequest_tags_frame [of env a ?s w1] t
  have i2: "inst w2 = inst w1" and l2: "length (spans w2) = length (spans w1)" by simp_all
  show "inst (putrequest_before env a w) = (inst w)\<lparr>datadog_span := Some ?s\<rparr>"
    using sp t i i2 by (cases r) (simp_all add: putrequest_before_def putrequest_try_def)
  show "?s < length (spans (putrequest_before env a w))"
    using sp t l l2 by (cases r) (simp_all add: putrequest_before_def putrequest_try_def)
qed


lemmas setting_defs = env0_def tracer0_def pin0_def conn0_def world0_def world_dt_def
  agent_world_def get_args_def no_args_def frozen_args_def one_arg_def ok_response_def
  accept_args_def original_def env_tagging_fails_def library_request_def

lemmas wrapper_defs = wrap_request_def wrap_putrequest_def wrap_getresponse_def
  wrap_putheader_def wrap_init_def should_skip_request_def pin_enabled_def
  request_before_def request_try_def request_escapes_def putrequest_before_def
  putrequest_try_def putrequest_escapes_def putrequest_span_def putrequest_tags_def
  putrequest_url_def getresponse_finally_def getresponse_try_def getresponse_escapes_def
  after_finally_def putheader_item_def call_and_record_def record_exception_def
  finish_attached_def tracer_trace_def propagator_inject_def store_request_headers_def
  store_response_headers_def config_get_from_def cfg_get_def span_name_def on_span_def
  setattr_datadog_span_def delattr_datadog_span_def log_debug_def set_tag_def
  set_exc_info_def finish_def cycle_def



lemma original_keeps_tracing: "keeps_tracing (original m r)"
  by (simp add: keeps_tracing_def original_def)



subsection \<open>Cycles\<close>

lemma tag_headers_finish_calls [simp]: "finish_calls (tag_headers env hs sp) = finish_calls sp"
  by (induction hs arbitrary: sp) auto

lemma request_try_ok_traced:
  "fst (request_try env cfg a w) = None \<Longrightarrow> trace_raises env = None"
  by (cases "trace_raises env") (simp_all add: request_try_def tracer_trace_def)

lemma request_before_opened:
  assumes "fst (request_try env (config_get_from (inst w)) a w) = None"
  shows "finish_calls (spans (snd (request_before env a w)) ! length (spans w)) = 0"
proof -
  have t: "trace_raises env = None" using assms by (rule request_try_ok_traced)
  obtain a' w' where r: "request_try env (config_get_from (inst w)) a w = (None, a', w')"
    using assms by (cases "request_try env (config_get_from (inst w)) a w") auto
  from request_try_traced [OF t, of "config_get_from (inst w)" a w] r
  have "spans w' ! length (spans w) = \<lparr>name = span_name env, span_type = HTTP, error = 0,
      exc_info = None, meta = [], finish_calls = 0\<rparr>" by simp
  then show ?thesis using r by (simp add: request_before_def)
qed

lemma set_tag_keeps_finish_calls [simp]:
  "finish_calls (spans (on_span s (set_tag k v) w) ! i) = finish_calls (spans w ! i)"
  by (simp add: nth_on_span)

lemma putrequest_tags_finish_calls:
  "finish_calls (spans (snd (putrequest_tags env a s w)) ! i) = finish_calls (spans w ! i)"
  by (simp add: putrequest_tags_def Let_def split: sum.splits)

lemma putrequest_try_ok_traced:
  "datadog_span (inst w) = None \<Longrightarrow> fst (putrequest_try env a w) = None \<Longrightarrow> trace_raises env = None"
  by (cases "trace_raises env")
     (simp_all add: putrequest_try_def putrequest_span_def tracer_trace_def)

lemma putrequest_before_opened:
  assumes n: "datadog_span (inst w) = None" and ok: "fst (putrequest_try env a w) = None"
  shows "finish_calls (spans (putrequest_before env a w) ! length (spans w)) = 0"
    and "inst (putrequest_before env a w) = (inst w)\<lparr>datadog_span := Some (length (spans w))\<rparr>"
    and "length (spans (putrequest_before env a w)) = Suc (length (spans w))"
proof -
  have t: "trace_raises env = None" using n ok by (rule putrequest_try_ok_traced)
  let ?w1 = "setattr_datadog_span (length (spans w))
      (w\<lparr>spans := spans w @ [\<lparr>name = span_name env, span_type = HTTP, error = 0,
          exc_info = None, meta = [], finish_calls = 0\<rparr>]\<rparr>)"
  have sp: "putrequest_span env w = Inr (length (spans w), ?w1)"
    using n t by (simp add: putrequest_span_def tracer_trace_def)
  then have b: "putrequest_before env a w = snd (putrequest_tags env a (length (spans w)) ?w1)"
    using ok by (cases "putrequest_tags env a (length (spans w)) ?w1")
      (simp add: putrequest_before_def putrequest_try_def)
  show "finish_calls (spans (putrequest_before env a w) ! length (spans w)) = 0"
    by (simp add: b putrequest_tags_finish_calls)
  show "inst (putrequest_before env a w) = (inst w)\<lparr>datadog_span := Some (length (spans w))\<rparr>"
    by (simp add: b putrequest_tags_frame)
  show "length (spans (putrequest_before env a w)) = Suc (length (spans w))"
    by (simp add: b putrequest_tags_frame)
qed

lemma getresponse_finally_finishes:
  assumes "store_response_headers_raises env = None"
    and "datadog_span (inst w) = Some s" and "s < length (spans w)"
  shows "finish_calls (spans (getresponse_finally env resp w) ! s) = Suc (finish_calls (spans w ! s))"
    and "datadog_span (inst (getresponse_finally env resp w)) = None"
  using assms
  by (cases resp;
      simp add: getresponse_finally_def getresponse_try_def store_response_headers_def
        Let_def nth_on_span)+

text \<open>What a started request leaves for \<open>getresponse\<close>: the span \<open>s\<close> attached, with
  \<open>n\<close> calls of \<open>finish\<close> so far, on a connection whose pin is enabled.\<close>

lemma call_and_record_outcome: "fst (call_and_record func a w) = fst (func a w)"
  by (cases "func a w") (auto simp: call_and_record_def split: sum.splits)

lemma call_and_record_counts:
  assumes k: "keeps_tracing func"
    and s: "datadog_span (inst w) = Some s" and l: "s < length (spans w)"
  shows "inst (snd (call_and_record func a w)) = inst w"
    and "length (spans (snd (call_and_record func a w))) = length (spans w)"
    and "finish_calls (spans (snd (call_and_record func a w)) ! s)
          = (case fst (func a w) of
               Inl e \<Rightarrow> if is_Exception e then Suc (finish_calls (spans w ! s))
                        else finish_calls (spans w ! s)
             | Inr r \<Rightarrow> finish_calls (spans w ! s))"
proof -
  obtain r w' where f: "func a w = (r, w')" by (cases "func a w") auto
  from keeps_tracingD(1,2) [OF k, where a = a and w = w] keeps_tracingD(3) [OF k l, where a = a] f
  have i: "inst w' = inst w" and n: "length (spans w') = length (spans w)"
    and c: "finish_calls (spans w' ! s) = finish_calls (spans w ! s)" by simp_all
  show "inst (snd (call_and_record func a w)) = inst w"
    using f i by (cases r) (simp_all add: call_and_record_def record_exception_def split: option.splits)
  show "length (spans (snd (call_and_record func a w))) = length (spans w)"
    using f n by (cases r) (simp_all add: call_and_record_def record_exception_def split: option.splits)
  show "finish_calls (spans (snd (call_and_record func a w)) ! s)
          = (case fst (func a w) of
               Inl e \<Rightarrow> if is_Exception e then Suc (finish_calls (spans w ! s))
                        else finish_calls (spans w ! s)
             | Inr r \<Rightarrow> finish_calls (spans w ! s))"
    using f i n c s l
    by (cases r) (simp_all add: call_and_record_def record_exception_def nth_on_span)
qed

lemma getresponse_counts:
  assumes k: "keeps_tracing func"
    and p: "datadog_pin (inst w) = Some pn" "pin_enabled pn"
    and ok: "store_response_headers_raises env = None"
    and s: "datadog_span (inst w) = Some s" and l: "s < length (spans w)"
  shows "finish_calls (spans (snd (wrap_getresponse env func a w)) ! s) = Suc (finish_calls (spans w ! s))"
    and "datadog_span (inst (snd (wrap_getresponse env func a w))) = None"
proof -
  obtain r w' where f: "func a w = (r, w')" by (cases "func a w") auto
  from keeps_tracingD(1,2) [OF k, where a = a and w = w] keeps_tracingD(3) [OF k l, where a = a] f
  have i: "inst w' = inst w" and n: "length (spans w') = length (spans w)"
    and c: "finish_calls (spans w' ! s) = finish_calls (spans w ! s)" by simp_all
  have s': "datadog_span (inst w') = Some s" and l': "s < length (spans w')"
    using i n s l by simp_all
  show "finish_calls (spans (snd (wrap_getresponse env func a w)) ! s) = Suc (finish_calls (spans w ! s))"
    using f p c getresponse_finally_finishes(1) [OF ok s' l']
    by (cases r) (simp_all add: wrap_getresponse_def)
  show "datadog_span (inst (snd (wrap_getresponse env func a w))) = None"
    using f p getresponse_finally_finishes(2) [OF ok s' l']
    by (cases r) (simp_all add: wrap_getresponse_def)
qed

text \<open>When nothing goes wrong in the instrumentation, the wrapped functions leave the
  tracing state alone and the first of them raises nothing but an \<^verbatim>\<open>Exception\<close>, a
  cycle calls \<open>finish\<close> once on its span: the first wrapper when the wrapped call raises,
  \<open>getresponse\<close> otherwise.\<close>

lemma cycle_finishes_once:
  assumes st: "start a w = call_and_record start_func a1 w1"
    and ks: "keeps_tracing start_func" and kg: "keeps_tracing func"
    and ex: "\<And>e. fst (start_func a1 w1) = Inl e \<Longrightarrow> is_Exception e"
    and p: "datadog_pin (inst w1) = Some pn" "pin_enabled pn"
    and ok: "store_response_headers_raises env = None"
    and s: "datadog_span (inst w1) = Some s" and l: "s < length (spans w1)"
    and z: "finish_calls (spans w1 ! s) = 0"
  shows "finish_calls (spans (snd (cycle start a (wrap_getresponse env func) b w)) ! s) = 1"
proof -
  obtain r w2 where c: "call_and_record start_func a1 w1 = (r, w2)"
    by (cases "call_and_record start_func a1 w1") auto
  have r: "fst (start_func a1 w1) = r"
    using call_and_record_outcome [of start_func a1 w1] c by simp
  from call_and_record_counts [OF ks s l, of a1] c z r
  have i: "inst w2 = inst w1" and n: "length (spans w2) = length (spans w1)"
    and f: "finish_calls (spans w2 ! s)
              = (case r of Inl e \<Rightarrow> if is_Exception e then 1 else 0 | Inr v \<Rightarrow> 0)"
    by (simp_all split: sum.splits)
  show ?thesis
  proof (cases r)
    case (Inl e)
    have "is_Exception e" using ex r Inl by simp
    then show ?thesis using st c f Inl by (simp add: cycle_def)
  next
    case (Inr v)
    have p2: "datadog_pin (inst w2) = Some pn" using i p by simp
    have s2: "datadog_span (inst w2) = Some s" using i s by simp
    have l2: "s < length (spans w2)" using n l by simp
    from getresponse_counts(1) [OF kg p2 p(2) ok s2 l2, of b] Inr f
    show ?thesis using st c Inr by (simp add: cycle_def)
  qed
qed

lemma request_cycle_finishes_once:
  assumes skip: "\<not> should_skip_request (datadog_pin (inst w)) (inst w)"
    and req_ok: "fst (request_try env (config_get_from (inst w)) a w) = None"
    and resp_ok: "store_response_headers_raises env = None"
    and ks: "keeps_tracing start_func" and kg: "keeps_tracing func"
    and ex: "\<And>e. fst (start_func (fst (request_before env a w)) (snd (request_before env a w)))
               = Inl e \<Longrightarrow> is_Exception e"
  shows "finish_calls (spans (snd (cycle (wrap_request env start_func) a
            (wrap_getresponse env func) b w)) ! length (spans w)) = 1"
proof -
  from not_skipped_pin [OF skip] obtain pn where
    p: "datadog_pin (inst w) = Some pn" and e: "pin_enabled pn" by blast
  have t: "trace_raises env = None" using req_ok by (rule request_try_ok_traced)
  let ?b = "request_before env a w"
  have st: "wrap_request env start_func a w = call_and_record start_func (fst ?b) (snd ?b)"
    using skip req_ok by (simp add: wrap_request_def request_escapes_def)
  have pb: "datadog_pin (inst (snd ?b)) = Some pn"
    using request_before_traced(1) [OF t, of a w] p by simp
  have sb: "datadog_span (inst (snd ?b)) = Some (length (spans w))"
    using request_before_traced(1) [OF t, of a w] by simp
  have lb: "length (spans w) < length (spans (snd ?b))"
    using request_before_traced(2) [OF t, of a w] by simp
  show ?thesis
    by (rule cycle_finishes_once [where start = "wrap_request env start_func" and a = a and w = w,
          OF st ks kg ex pb e resp_ok sb lb request_before_opened [OF req_ok]])
qed

lemma putrequest_cycle_finishes_once:
  assumes skip: "\<not> should_skip_request (datadog_pin (inst w)) (inst w)"
    and put_ok: "fst (putrequest_try env a w) = None"
    and fresh: "datadog_span (inst w) = None"
    and resp_ok: "store_response_headers_raises env = None"
    and ks: "keeps_tracing start_func" and kg: "keeps_tracing func"
    and ex: "\<And>e. fst (start_func a (putrequest_before env a w)) = Inl e \<Longrightarrow> is_Exception e"
  shows "finish_calls (spans (snd (cycle (wrap_putrequest env start_func) a
            (wrap_getresponse env func) b w)) ! length (spans w)) = 1"
proof -
  from not_skipped_pin [OF skip] obtain pn where
    p: "datadog_pin (inst w) = Some pn" and e: "pin_enabled pn" by blast
  let ?b = "putrequest_before env a w"
  have st: "wrap_putrequest env start_func a w = call_and_record start_func a ?b"
    using skip put_ok by (simp add: wrap_putrequest_def putrequest_escapes_def)
  have pb: "datadog_pin (inst ?b) = Some pn"
    using putrequest_before_opened(2) [OF fresh put_ok] p by simp
  have sb: "datadog_span (inst ?b) = Some (length (spans w))"
    using putrequest_before_opened(2) [OF fresh put_ok] by simp
  have lb: "length (spans w) < length (spans ?b)"
    using putrequest_before_opened(3) [OF fresh put_ok] by simp
  show ?thesis
    by (rule cycle_finishes_once [where start = "wrap_putrequest env start_func" and a = a and w = w,
          OF st ks kg ex pb e resp_ok sb lb putrequest_before_opened(1) [OF fresh put_ok]])
qed

subsection \<open>The wrappers at concrete inputs\<close>

text \<open>
  C2 (the code at the failing input). After \<open>patch\<close>, a request that is sent and
  whose \<open>getresponse\<close> raises produces one span, finished, with its error flag still 0
  and no exception recorded: \<open>_wrap_getresponse\<close> only finishes the span, where
  \<open>_wrap_request\<close> and \<open>_wrap_putrequest\<close> call \<open>set_exc_info\<close>. The claim asks for the
  flag to be set whenever the wrapped call raised.
\<close>

theorem getresponse_failure_unflagged:
  "cycle (bound env0 (HTTPConnection_request (patch httplib0)) (original ''request'' (Inr RNone)))
       get_args
     (bound env0 (HTTPConnection_getresponse (patch httplib0))
       (original ''getresponse'' (Inl (Exc ''RemoteDisconnected''))))
       no_args world0
   = (Inl (Exc ''RemoteDisconnected''),
      world0\<lparr>spans := [\<lparr>name = ''http.client.request'', span_type = HTTP, error = 0,
                          exc_info = None, meta = [], finish_calls = 1\<rparr>],
             sent := [(''request'', get_args), (''getresponse'', no_args)]\<rparr>)"
  unfolding patched_request patched_getresponse
  by (simp add: wrapper_defs setting_defs)

text \<open>
  C3 (the code at the failing input). \<open>_wrap_putheader\<close> has no \<^verbatim>\<open>try\<close>: with a span
  attached, \<open>putheader\<close> called with a header and no value raises the \<^verbatim>\<open>IndexError\<close> of
  the wrapper's own \<^verbatim>\<open>args[1]\<close>, where the library's function returns normally.
\<close>

theorem putheader_error_escapes:
  "fst (bound env0 (HTTPConnection_putheader (patch httplib0)) (original ''putheader'' (Inr RNone))
          one_arg
          (snd (bound env0 (HTTPConnection_putrequest (patch httplib0))
                  (original ''putrequest'' (Inr RNone)) get_args world0)))
     = Inl IndexError
   \<and> fst (original ''putheader'' (Inr RNone) one_arg
          (snd (bound env0 (HTTPConnection_putrequest (patch httplib0))
                  (original ''putrequest'' (Inr RNone)) get_args world0)))
     = Inr RNone"
  unfolding patched_putheader patched_putrequest
  by (simp add: wrapper_defs setting_defs)

text \<open>
  C5 (the code at the failing inputs). \<open>finish\<close> is not called once on every path.
  When the helper that tags the response headers raises, the handler of
  \<open>_wrap_getresponse\<close> only logs: the cycle ends with the span never finished and still
  attached, where the handlers of \<open>_wrap_request\<close> and \<open>_wrap_putrequest\<close> "close the
  span to prevent memory leaks". When the library's \<open>request\<close> calls the patched
  \<open>putrequest\<close> and that raises, the handler of \<open>_wrap_putrequest\<close> finishes the span
  and leaves it attached, and the handler of \<open>_wrap_request\<close> finishes it again. The
  same happens when the injection raises in \<open>_wrap_request\<close> (headers passed as a
  read-only mapping, distributed tracing on) and \<open>getresponse\<close> follows.
\<close>

theorem finish_not_exactly_once:
  "finish_calls (spans (snd (cycle
       (bound env_tagging_fails (HTTPConnection_request (patch httplib0))
          (original ''request'' (Inr RNone)))
         get_args
       (bound env_tagging_fails (HTTPConnection_getresponse (patch httplib0))
          (original ''getresponse'' (Inr ok_response)))
         no_args world0)) ! 0) = 0
   \<and> datadog_span (inst (snd (cycle
       (bound env_tagging_fails (HTTPConnection_request (patch httplib0))
          (original ''request'' (Inr RNone)))
         get_args
       (bound env_tagging_fails (HTTPConnection_getresponse (patch httplib0))
          (original ''getresponse'' (Inr ok_response)))
         no_args world0))) = Some 0
   \<and> finish_calls (spans (snd (
       bound env0 (HTTPConnection_request (patch httplib0))
         (library_request (bound env0 (HTTPConnection_putrequest (patch httplib0))
            (original ''putrequest'' (Inl (Exc ''CannotSendRequest'')))))
         get_args world0)) ! 0) = 2
   \<and> finish_calls (spans (snd (cycle
       (bound env0 (HTTPConnection_request (patch httplib0)) (original ''request'' (Inr RNone)))
         frozen_args
       (bound env0 (HTTPConnection_getresponse (patch httplib0))
         (original ''getresponse'' (Inr ok_response)))
         no_args world_dt)) ! 0) = 2"
  unfolding patched_request patched_getresponse patched_putrequest
  by (simp add: wrapper_defs setting_defs)

text \<open>
  C6 (the code at the failing input). When the wrapped \<open>request\<close> raises, the handler
  finishes the span and leaves \<^verbatim>\<open>_datadog_span\<close> on the connection; a following
  \<open>putrequest\<close> takes it for a span of its own cycle, so the tracer produces no span
  for the second request.
\<close>

theorem span_left_attached:
  "datadog_span (inst (snd (bound env0 (HTTPConnection_request (patch httplib0))
       (original ''request'' (Inl (Exc ''ConnectionRefusedError''))) get_args world0))) = Some 0
   \<and> length (spans (run env0
         [(Wrap_request, original ''request'' (Inl (Exc ''ConnectionRefusedError'')), get_args),
          (Wrap_putrequest, original ''putrequest'' (Inr RNone), get_args),
          (Wrap_getresponse, original ''getresponse'' (Inr ok_response), no_args)] world0)) = 1"
  unfolding patched_request
  by (simp add: wrapper_defs setting_defs)

text \<open>
  C9 (counterexample). With the toggle on, a request made with \<open>putrequest\<close>,
  \<open>putheader\<close> and \<open>getresponse\<close> is traced (one span), and the library is called with
  the caller's arguments only: no propagation header is added.
\<close>

theorem putrequest_without_propagation:
  "cfg_get (config_get_from (inst world_dt)) ''distributed_tracing''
   \<and> length (spans (run env0
         [(Wrap_putrequest, original ''putrequest'' (Inr RNone), get_args),
          (Wrap_putheader, original ''putheader'' (Inr RNone), accept_args),
          (Wrap_getresponse, original ''getresponse'' (Inr ok_response), no_args)] world_dt)) = 1
   \<and> sent (run env0
         [(Wrap_putrequest, original ''putrequest'' (Inr RNone), get_args),
          (Wrap_putheader, original ''putheader'' (Inr RNone), accept_args),
          (Wrap_getresponse, original ''getresponse'' (Inr ok_response), no_args)] world_dt)
      = [(''putrequest'', get_args), (''putheader'', accept_args), (''getresponse'', no_args)]"
  by (simp add: wrapper_defs setting_defs)


lemma map_of_dict_setitem [simp]: "map_of (dict_setitem k v d) k = Some v"
  by (induction d) auto

lemma request_try_succeeds:
  assumes traced: "trace_raises env = None"
    and inj: "inject_raises env = None"
    and hdrs: "request_headers a = None \<or> (\<exists>d. request_headers a = Some (Dict d))"
  shows "fst (request_try env cfg a w) = None"
proof (cases "cfg_get cfg ''distributed_tracing''")
  case False
  then show ?thesis using traced by (simp add: request_try_def tracer_trace_def)
next
  case True
  show ?thesis
  proof (cases "length (args a) > 3")
    case long: True
    with hdrs obtain d where d: "args a ! 3 = Dict d" by (auto simp: request_headers_def)
    show ?thesis
      using True long d traced inj
      by (simp add: request_try_def tracer_trace_def propagator_inject_def)
  next
    case short: False
    show ?thesis
    proof (cases "map_of (kwargs a) ''headers''")
      case None
      then show ?thesis
        using True short traced inj
        by (simp add: request_try_def tracer_trace_def propagator_inject_def)
    next
      case (Some h)
      with hdrs short obtain d where d: "h = Dict d" by (auto simp: request_headers_def)
      show ?thesis
        using True short traced inj Some d
        by (simp add: request_try_def tracer_trace_def propagator_inject_def)
    qed
  qed
qed

text \<open>
  C9 (amended). For a request traced through \<open>request\<close> whose headers are absent or a
  dictionary, when neither the tracer nor the injector raises: the wrapped function is
  called with the propagation headers of the new span written into the request's headers
  if the toggle \<open>distributed_tracing\<close> of the connection's configuration is on, and with
  the caller's arguments unchanged if it is off. The toggle the module registers is off
  when the environment does not set it.
\<close>

theorem propagation_follows_toggle:
  assumes skip: "\<not> should_skip_request (datadog_pin (inst w)) (inst w)"
    and traced: "trace_raises env = None"
    and inj: "inject_raises env = None"
    and hdrs: "request_headers a = None \<or> (\<exists>d. request_headers a = Some (Dict d))"
    and unset: "environ (''httplib'', ''distributed_tracing'') = None"
  shows "wrap_request env func a w
           = call_and_record func (fst (request_before env a w)) (snd (request_before env a w))
       \<and> request_headers (fst (request_before env a w))
           = (if cfg_get (config_get_from (inst w)) ''distributed_tracing''
              then Some (Dict (dict_update
                     (case request_headers a of Some (Dict d) \<Rightarrow> d | _ \<Rightarrow> [])
                     (propagation_headers env (length (spans w)))))
              else request_headers a)
       \<and> (\<not> cfg_get (config_get_from (inst w)) ''distributed_tracing''
            \<longrightarrow> fst (request_before env a w) = a)
       \<and> \<not> cfg_get (httplib_config environ) ''distributed_tracing''"
proof (intro conjI)
  show "wrap_request env func a w
           = call_and_record func (fst (request_before env a w)) (snd (request_before env a w))"
    using skip request_try_succeeds [OF traced inj hdrs, of "config_get_from (inst w)" w]
    by (simp add: wrap_request_def request_escapes_def)
  show "\<not> cfg_get (httplib_config environ) ''distributed_tracing''"
    using unset by (simp add: httplib_config_def get_env_def cfg_get_def)
  show "\<not> cfg_get (config_get_from (inst w)) ''distributed_tracing''
            \<longrightarrow> fst (request_before env a w) = a"
    using traced by (simp add: request_before_def request_try_def tracer_trace_def)
  show "request_headers (fst (request_before env a w))
           = (if cfg_get (config_get_from (inst w)) ''distributed_tracing''
              then Some (Dict (dict_update
                     (case request_headers a of Some (Dict d) \<Rightarrow> d | _ \<Rightarrow> [])
                     (propagation_headers env (length (spans w)))))
              else request_headers a)"
  proof (cases "cfg_get (config_get_from (inst w)) ''distributed_tracing''")
    case False
    then show ?thesis
      using traced by (simp add: request_before_def request_try_def tracer_trace_def)
  next
    case True
    show ?thesis
    proof (cases "length (args a) > 3")
      case long: True
      with hdrs obtain d where d: "args a ! 3 = Dict d" by (auto simp: request_headers_def)
      show ?thesis
        using True long d traced inj
        by (simp add: request_before_def request_try_def tracer_trace_def
            propagator_inject_def request_headers_def)
    next
      case short: False
      show ?thesis
      proof (cases "map_of (kwargs a) ''headers''")
        case None
        then show ?thesis
          using True short traced inj
          by (simp add: request_before_def request_try_def tracer_trace_def
              propagator_inject_def request_headers_def)
      next
        case (Some h)
        with hdrs short obtain d where d: "h = Dict d" by (auto simp: request_headers_def)
        show ?thesis
          using True short traced inj Some d
          by (simp add: request_before_def request_try_def tracer_trace_def
              propagator_inject_def request_headers_def)
      qed
    qed
  qed
qed

theorem propagation_follows_toggle_witness:
  "request_headers (fst (request_before env0 get_args world_dt))
     = Some (Dict [(''x-datadog-trace-id'', ''1''), (''x-datadog-parent-id'', ''2'')])
   \<and> fst (request_before env0 get_args world0) = get_args
   \<and> \<not> cfg_get (httplib_config (\<lambda>k. None)) ''distributed_tracing''"
proof -
  have skip: "\<not> should_skip_request (datadog_pin (inst world0)) (inst world0)"
    by (simp add: should_skip_request_def world0_def conn0_def pin0_def tracer0_def pin_enabled_def)
  have skip_dt: "\<not> should_skip_request (datadog_pin (inst world_dt)) (inst world_dt)"
    by (simp add: should_skip_request_def world_dt_def world0_def conn0_def pin0_def tracer0_def
        pin_enabled_def)
  have traced: "trace_raises env0 = None" and inj: "inject_raises env0 = None"
    by (simp_all add: env0_def)
  have hdrs: "request_headers get_args = None \<or> (\<exists>d. request_headers get_args = Some (Dict d))"
    by (simp add: request_headers_def get_args_def)
  have unset: "(\<lambda>k::string \<times> string. None::string option) (''httplib'', ''distributed_tracing'') = None"
    by simp
  have off: "\<not> cfg_get (config_get_from (inst world0)) ''distributed_tracing''"
    by (simp add: cfg_get_def config_get_from_def world0_def conn0_def pin0_def)
  have on: "cfg_get (config_get_from (inst world_dt)) ''distributed_tracing''"
    by (simp add: cfg_get_def config_get_from_def world_dt_def world0_def conn0_def pin0_def)
  have h: "request_headers get_args = None" by (simp add: request_headers_def get_args_def)
  have p: "propagation_headers env0 n
      = [(''x-datadog-trace-id'', ''1''), (''x-datadog-parent-id'', ''2'')]" for n
    by (simp add: env0_def)
  show ?thesis
    using propagation_follows_toggle [OF skip traced inj hdrs unset,
        of "original ''request'' (Inr RNone)"]
      propagation_follows_toggle [OF skip_dt traced inj hdrs unset,
        of "original ''request'' (Inr RNone)"]
    by (simp add: off on h p)
qed

subsection \<open>Sequences of calls\<close>

text \<open>The attribute refers to a span of the tracer throughout: every wrapper keeps
  \<open>valid_world\<close>, when the wrapped functions leave the tracing state alone.\<close>

lemma valid_world_frame:
  assumes "valid_world w" and "datadog_span (inst w') = datadog_span (inst w) \<or> datadog_span (inst w') = None"
    and "length (spans w) \<le> length (spans w')"
  shows "valid_world w'"
  using assms by (auto simp: valid_world_def split: option.splits)

lemma valid_call:
  assumes "keeps_tracing func" and "valid_world w"
  shows "valid_world (snd (func a w))"
  using assms(2) keeps_tracingD(1,2) [OF assms(1), where a = a and w = w]
  by (auto intro: valid_world_frame)

lemma valid_call_and_record:
  assumes k: "keeps_tracing func" and v: "valid_world w"
  shows "valid_world (snd (call_and_record func a w))"
proof -
  obtain r w' where f: "func a w = (r, w')" by (cases "func a w") auto
  have v': "valid_world w'" using valid_call [OF k v, of a] f by simp
  show ?thesis
    using f v'
    by (cases r) (auto simp: call_and_record_def record_exception_def valid_world_def
        split: option.splits if_splits)
qed

lemma valid_request_before: "valid_world w \<Longrightarrow> valid_world (snd (request_before env a w))"
proof (cases "trace_raises env")
  case None
  assume "valid_world w"
  show ?thesis
    using request_before_traced [OF None, of a w] by (simp add: valid_world_def)
next
  case (Some e)
  assume "valid_world w"
  then show ?thesis
    using Some
    by (auto simp: request_before_def request_try_def tracer_trace_def valid_world_def
        finish_attached_def split: option.splits if_splits)
qed

lemma valid_putrequest_before: "valid_world w \<Longrightarrow> valid_world (putrequest_before env a w)"
proof (cases "trace_raises env")
  case None
  assume "valid_world w"
  from putrequest_before_attached [OF None this, of a]
  show ?thesis by (simp add: valid_world_def)
next
  case (Some e)
  assume v: "valid_world w"
  show ?thesis
  proof (cases "datadog_span (inst w)")
    case None
    then show ?thesis
      using Some v
      by (auto simp: putrequest_before_def putrequest_try_def putrequest_span_def
          tracer_trace_def valid_world_def finish_attached_def)
  next
    case (Some s)
    obtain r w2 where t: "putrequest_tags env a s w = (r, w2)"
      by (cases "putrequest_tags env a s w") auto
    from putrequest_tags_frame [of env a s w] t
    have "inst w2 = inst w" and "length (spans w2) = length (spans w)" by simp_all
    then show ?thesis
      using Some v t
      by (cases r) (auto simp: putrequest_before_def putrequest_try_def putrequest_span_def
          valid_world_def split: option.splits if_splits)
  qed
qed

lemma valid_getresponse_finally:
  "valid_world w \<Longrightarrow> valid_world (getresponse_finally env resp w)"
  by (cases resp)
     (auto simp: getresponse_finally_def getresponse_try_def store_response_headers_def
        valid_world_def Let_def split: option.splits if_splits)

lemma valid_wrapper:
  assumes k: "keeps_tracing func" and v: "valid_world w"
  shows "valid_world (snd (wrapper_fn wr env func a w))"
proof (cases wr)
  case Wrap_init
  have "valid_world (w\<lparr>inst := (inst w)\<lparr>datadog_pin :=
        Some \<lparr>pin_tracer = global_tracer env, pin_config = config_httplib env\<rparr>\<rparr>\<rparr>)"
    using v by (auto simp: valid_world_def split: option.splits)
  then show ?thesis using Wrap_init by (simp add: wrap_init_def valid_call [OF k])
next
  case Wrap_getresponse
  obtain r w' where f: "func a w = (r, w')" by (cases "func a w") auto
  have v': "valid_world w'" using valid_call [OF k v, of a] f by simp
  show ?thesis
    using Wrap_getresponse f v' valid_getresponse_finally [OF v']
    by (cases r) (auto simp: wrap_getresponse_def split: option.splits)
next
  case Wrap_request
  then show ?thesis
    using valid_call [OF k v] valid_call_and_record [OF k valid_request_before [OF v]]
      valid_request_before [OF v]
    by (simp add: wrap_request_def split: option.splits)
next
  case Wrap_putrequest
  then show ?thesis
    using valid_call [OF k v] valid_call_and_record [OF k valid_putrequest_before [OF v]]
      valid_putrequest_before [OF v]
    by (simp add: wrap_putrequest_def split: option.splits)
next
  case Wrap_putheader
  show ?thesis
  proof (cases "datadog_span (inst w)")
    case None
    then show ?thesis using Wrap_putheader valid_call [OF k v] by (simp add: wrap_putheader_def)
  next
    case (Some s)
    have "valid_world w1" if "store_request_headers env kv s w = Inr w1" for kv w1
      using that v
      by (auto simp: store_request_headers_def valid_world_def
          split: option.splits pyval.splits if_splits)
    then show ?thesis
      using Wrap_putheader Some v valid_call [OF k]
      by (auto simp: wrap_putheader_def split: sum.splits)
  qed
qed

lemma valid_run:
  assumes "valid_world w" and "\<forall>op \<in> set ops. keeps_tracing (fst (snd op))"
  shows "valid_world (run env ops w)"
  using assms
proof (induction ops arbitrary: w)
  case Nil
  then show ?case by simp
next
  case (Cons op ops)
  obtain wr func a where op: "op = (wr, func, a)" by (cases op) auto
  have "valid_world (snd (wrapper_fn wr env func a w))"
    using Cons.prems op by (intro valid_wrapper) auto
  then show ?case using Cons.IH Cons.prems op by simp
qed

text \<open>\<open>putrequest\<close> opens a span only when none is attached.\<close>

lemma putrequest_before_spans:
  "length (spans (putrequest_before env a w))
     = (case datadog_span (inst w) of
          Some s \<Rightarrow> length (spans w)
        | None \<Rightarrow> (case trace_raises env of
                     None \<Rightarrow> Suc (length (spans w))
                   | Some e \<Rightarrow> length (spans w)))"
proof (cases "putrequest_span env w")
  case (Inl e)
  then show ?thesis
    by (cases "datadog_span (inst w)"; cases "trace_raises env")
       (simp_all add: putrequest_before_def putrequest_try_def putrequest_span_def
          tracer_trace_def)
next
  case (Inr sw)
  obtain s w1 where sw: "sw = (s, w1)" by (cases sw) auto
  obtain r w2 where t: "putrequest_tags env a s w1 = (r, w2)"
    by (cases "putrequest_tags env a s w1") auto
  from putrequest_tags_frame(2) [of env a s w1] t
  have l2: "length (spans w2) = length (spans w1)" by simp
  have b: "length (spans (putrequest_before env a w)) = length (spans w1)"
    using Inr sw t l2 by (cases r) (simp_all add: putrequest_before_def putrequest_try_def)
  show ?thesis
    using Inr sw b
    by (cases "datadog_span (inst w)"; cases "trace_raises env")
       (auto simp: putrequest_span_def tracer_trace_def)
qed

text \<open>
  C7 (the code at the failing input). \<open>_wrap_request\<close> opens a span and sets the
  attribute without looking at it, where \<open>_wrap_putrequest\<close> reuses the span it finds:
  after \<open>request\<close> is called twice on the connection (the first response never read), the
  tracer holds two unfinished spans of the connection, only the second is attached, and
  \<open>getresponse\<close> finishes the second: the first is never finished.
\<close>

theorem request_drops_open_span:
  "unfinished (run env0
       [(Wrap_request, original ''request'' (Inr RNone), get_args),
        (Wrap_request, original ''request'' (Inr RNone), get_args)] world0) = [0, 1]
   \<and> attached_open (run env0
       [(Wrap_request, original ''request'' (Inr RNone), get_args),
        (Wrap_request, original ''request'' (Inr RNone), get_args)] world0) = [1]
   \<and> unfinished (run env0
       [(Wrap_request, original ''request'' (Inr RNone), get_args),
        (Wrap_request, original ''request'' (Inr RNone), get_args),
        (Wrap_getresponse, original ''getresponse'' (Inr ok_response), no_args)] world0) = [0]"
  by (simp add: unfinished_def attached_open_def wrapper_defs setting_defs upt_rec)

end
